theory Spec2Isabelle
  imports Complex_Main
begin

section \<open>The ClotCare prediction endpoint (app.py, route /predict)\<close>

text \<open>
  This theory embeds the function \<^verbatim>\<open>predict\<close> of \<^verbatim>\<open>app.py\<close> (lines 90 to 138): the
  validation loop over the fourteen questions, the calls to the loaded scaler and classifier,
  the rounding of the class-1 probability, the risk tier and the three kinds of response.

  Conventions of the model.
  \<^item> The request body is the value \<^verbatim>\<open>request.json\<close> has after Flask parsed it: a JSON value.
    A JSON object is the list of the items of the Python dict, keys distinct.
  \<^item> A Python float is the real number its binary64 value denotes, or one of the three
    special values. Every operation rounds its exact result to the nearest binary64 value,
    ties to even (\<open>fl64\<close>); signed zeros are not represented. A float inside a JSON value
    is the binary64 value the parser produced. The text Python prints for a float (the
    shortest digits that read back to the same value) is a parameter of the model
    (\<open>float_str\<close>).
  \<^item> Strings are ASCII character lists.
  \<^item> The loaded artifacts \<^verbatim>\<open>scaler\<close> and \<^verbatim>\<open>model\<close> are not code of this file: their
    three methods are parameters. Each takes the current state of the artifacts, may raise,
    and returns the state it leaves behind.
  \<^item> A raised exception is a value; \<^verbatim>\<open>except Exception as e\<close> only observes \<^verbatim>\<open>str(e)\<close>.
\<close>

subsection \<open>Python values\<close>

datatype pyfloat = Finite real | PosInf | NegInf | NaN

datatype json =
    JNull
  | JBool bool
  | JInt int
  | JFloat pyfloat
  | JStr string
  | JArr "json list"
  | JObj "(string \<times> json) list"

datatype pyexn =
    AttributeError string
  | ValueError string
  | TypeError string
  | OverflowError string
  | IndexError string
  | OtherError string

fun str_exn :: "pyexn \<Rightarrow> string" where
  "str_exn (AttributeError m) = m"
| "str_exn (ValueError m) = m"
| "str_exn (TypeError m) = m"
| "str_exn (OverflowError m) = m"
| "str_exn (IndexError m) = m"
| "str_exn (OtherError m) = m"

text \<open>A Flask view returns the JSON body (here the items of the dict given to
  \<^verbatim>\<open>jsonify\<close>) and the HTTP status.\<close>

type_synonym response = "(string \<times> string) list \<times> nat"

text \<open>What one iteration of the loop, or the whole loop, does: it raises, it returns from
  \<^verbatim>\<open>predict\<close> with a response, or it goes on with a value.\<close>

datatype 'a flow = Raise pyexn | Return response | Next 'a

subsection \<open>Floats\<close>

definition round_half_even :: "real \<Rightarrow> int" where
  "round_half_even r =
     (let f = \<lfloor>r\<rfloor>; d = r - of_int f
      in if d < 1 / 2 then f
         else if 1 / 2 < d then f + 1
         else if even f then f else f + 1)"

definition pow2 :: "int \<Rightarrow> real" where
  "pow2 e = (if 0 \<le> e then 2 ^ nat e else 1 / 2 ^ nat (- e))"

text \<open>The binary exponent of a magnitude \<open>a\<close>, that is the \<open>e\<close> with
  \<open>2 ^ e \<le> a < 2 ^ (e + 1)\<close>, searched upwards from 0 or downwards from -1. Binary64 has
  no exponent below -1022 (smaller values are subnormal), and a value from \<open>2 ^ 1024\<close> on
  overflows.\<close>

function exponent_up :: "int \<Rightarrow> real \<Rightarrow> int" where
  "exponent_up e a = (if 1024 \<le> e \<or> a < pow2 (e + 1) then e else exponent_up (e + 1) a)"
  by pat_completeness auto
termination
  by (relation "measure (\<lambda>(e, a). nat (1024 - e))") auto

function exponent_down :: "int \<Rightarrow> real \<Rightarrow> int" where
  "exponent_down e a =
     (if e \<le> - 1022 \<or> pow2 e \<le> a then e else exponent_down (e - 1) a)"
  by pat_completeness auto
termination
  by (relation "measure (\<lambda>(e, a). nat (e + 1022))") auto

declare exponent_up.simps [simp del]

declare exponent_down.simps [simp del]

definition float_exponent :: "real \<Rightarrow> int" where
  "float_exponent a = (if 1 \<le> a then exponent_up 0 a else exponent_down (- 1) a)"

text \<open>The binary64 value nearest to the real \<open>r\<close>, ties to even: \<open>r\<close> is rounded to a
  multiple of the spacing \<open>2 ^ (e - 52)\<close> of the floats of its exponent \<open>e\<close>; a result of
  magnitude \<open>2 ^ 1024\<close> is infinite.\<close>

definition fl64 :: "real \<Rightarrow> pyfloat" where
  "fl64 r =
     (if r = 0 then Finite 0
      else (let q = pow2 (float_exponent \<bar>r\<bar> - 52);
                v = of_int (round_half_even (r / q)) * q
            in if 2 ^ 1024 \<le> v then PosInf
               else if v \<le> - (2 ^ 1024) then NegInf
               else Finite v))"

text \<open>\<^verbatim>\<open>x * 100\<close>, the product rounded to binary64.\<close>

fun times100 :: "pyfloat \<Rightarrow> pyfloat" where
  "times100 (Finite r) = fl64 (r * 100)"
| "times100 PosInf = PosInf"
| "times100 NegInf = NegInf"
| "times100 NaN = NaN"

text \<open>\<^verbatim>\<open>round(x, 2)\<close>: the exact value of \<open>x\<close> is rounded to the nearest multiple of
  0.01, ties to even, and the float nearest to that decimal is returned; special values are
  returned unchanged.\<close>

fun py_round2 :: "pyfloat \<Rightarrow> pyfloat" where
  "py_round2 (Finite r) = fl64 (of_int (round_half_even (r * 100)) / 100)"
| "py_round2 PosInf = PosInf"
| "py_round2 NegInf = NegInf"
| "py_round2 NaN = NaN"

text \<open>\<^verbatim>\<open>x < c\<close> for a float \<open>x\<close> and an integer literal \<open>c\<close>: false for NaN.\<close>

fun float_lt :: "pyfloat \<Rightarrow> real \<Rightarrow> bool" where
  "float_lt (Finite r) c = (r < c)"
| "float_lt PosInf c = False"
| "float_lt NegInf c = True"
| "float_lt NaN c = False"

subsection \<open>Text of values: \<^verbatim>\<open>str\<close> and \<^verbatim>\<open>repr\<close>\<close>

fun str_nat :: "nat \<Rightarrow> string" where
  "str_nat n =
     (if n < 10 then [''0123456789'' ! n]
      else str_nat (n div 10) @ [''0123456789'' ! (n mod 10)])"

declare str_nat.simps [simp del]

definition str_int :: "int \<Rightarrow> string" where
  "str_int i = (if i < 0 then ''-'' @ str_nat (nat (- i)) else str_nat (nat i))"

definition quoted :: "string \<Rightarrow> string" where
  "quoted s = CHR 0x27 # s @ [CHR 0x27]"

definition repr_char :: "char \<Rightarrow> char \<Rightarrow> string" where
  "repr_char q c =
     (if c = CHR 0x5C then [CHR 0x5C, CHR 0x5C]
      else if c = q then [CHR 0x5C, q]
      else if c = CHR 0x09 then [CHR 0x5C, CHR ''t'']
      else if c = CHR 0x0A then [CHR 0x5C, CHR ''n'']
      else if c = CHR 0x0D then [CHR 0x5C, CHR ''r'']
      else if (of_char c :: nat) < 32 \<or> (of_char c :: nat) = 127
        then [CHR 0x5C, CHR ''x'', ''0123456789abcdef'' ! (of_char c div 16),
              ''0123456789abcdef'' ! (of_char c mod 16)]
      else [c])"

text \<open>\<^verbatim>\<open>repr\<close> of a string: single quotes, unless the string has a single quote and no
  double quote.\<close>

definition repr_str :: "string \<Rightarrow> string" where
  "repr_str s =
     (let q = (if CHR 0x27 \<in> set s \<and> CHR 0x22 \<notin> set s then CHR 0x22 else CHR 0x27)
      in q # concat (map (repr_char q) s) @ [q])"

fun join :: "string \<Rightarrow> string list \<Rightarrow> string" where
  "join sep [] = []"
| "join sep [x] = x"
| "join sep (x # y # ys) = x @ sep @ join sep (y # ys)"

fun py_repr :: "(pyfloat \<Rightarrow> string) \<Rightarrow> json \<Rightarrow> string" where
  "py_repr fs JNull = ''None''"
| "py_repr fs (JBool b) = (if b then ''True'' else ''False'')"
| "py_repr fs (JInt i) = str_int i"
| "py_repr fs (JFloat x) = fs x"
| "py_repr fs (JStr s) = repr_str s"
| "py_repr fs (JArr xs) = ''['' @ join '', '' (map (py_repr fs) xs) @ '']''"
| "py_repr fs (JObj kvs) =
     ''{'' @ join '', '' (map (\<lambda>(k, v). repr_str k @ '': '' @ py_repr fs v) kvs) @ ''}''"

text \<open>\<^verbatim>\<open>str(value)\<close>, what an f-string inserts: a string as it is, the rest as \<^verbatim>\<open>repr\<close>.\<close>

definition py_str :: "(pyfloat \<Rightarrow> string) \<Rightarrow> json \<Rightarrow> string" where
  "py_str fs v = (case v of JStr s \<Rightarrow> s | _ \<Rightarrow> py_repr fs v)"

definition type_name :: "json \<Rightarrow> string" where
  "type_name v =
     (case v of JNull \<Rightarrow> ''NoneType'' | JBool _ \<Rightarrow> ''bool'' | JInt _ \<Rightarrow> ''int''
      | JFloat _ \<Rightarrow> ''float'' | JStr _ \<Rightarrow> ''str'' | JArr _ \<Rightarrow> ''list''
      | JObj _ \<Rightarrow> ''dict'')"

subsection \<open>\<^verbatim>\<open>float(value)\<close>\<close>

definition is_space :: "char \<Rightarrow> bool" where
  "is_space c = (c \<in> set [CHR 0x20, CHR 0x09, CHR 0x0A, CHR 0x0B, CHR 0x0C, CHR 0x0D])"

definition strip :: "string \<Rightarrow> string" where
  "strip s = rev (dropWhile is_space (rev (dropWhile is_space s)))"

definition is_digit :: "char \<Rightarrow> bool" where
  "is_digit c = (c \<in> set ''0123456789'')"

definition digit_val :: "char \<Rightarrow> nat" where
  "digit_val c =
     (case map_of (zip ''0123456789'' [0, 1, 2, 3, 4, 5, 6, 7, 8, 9]) c of
        Some d \<Rightarrow> d | None \<Rightarrow> 0)"

definition nat_of_digits :: "string \<Rightarrow> nat" where
  "nat_of_digits ds = foldl (\<lambda>a c. 10 * a + digit_val c) 0 ds"

definition lower :: "char \<Rightarrow> char" where
  "lower c =
     (case map_of (zip ''ABCDEFGHIJKLMNOPQRSTUVWXYZ'' ''abcdefghijklmnopqrstuvwxyz'') c of
        Some l \<Rightarrow> l | None \<Rightarrow> c)"

text \<open>An underscore is allowed between two digits only; the digits are kept.\<close>

fun drop_underscores :: "char option \<Rightarrow> string \<Rightarrow> string option" where
  "drop_underscores prev [] = Some []"
| "drop_underscores prev (c # cs) =
     (if c = CHR ''_'' then
        (case (prev, cs) of
           (Some p, d # _) \<Rightarrow>
             if is_digit p \<and> is_digit d then drop_underscores (Some c) cs else None
         | _ \<Rightarrow> None)
      else map_option ((#) c) (drop_underscores (Some c) cs))"

definition split_sign :: "string \<Rightarrow> bool \<times> string" where
  "split_sign s =
     (case s of
        [] \<Rightarrow> (False, s)
      | c # t \<Rightarrow> if c = CHR ''-'' then (True, t) else if c = CHR ''+'' then (False, t)
                 else (False, s))"

text \<open>The exponent part: nothing, or \<^verbatim>\<open>e\<close>, a sign and at least one digit, up to the end
  of the text.\<close>

definition parse_exponent :: "string \<Rightarrow> int option" where
  "parse_exponent s =
     (case s of
        [] \<Rightarrow> Some 0
      | c # t \<Rightarrow>
          if c = CHR ''e'' \<or> c = CHR ''E'' then
            (let (neg, u) = split_sign t
             in if u \<noteq> [] \<and> list_all is_digit u
                then Some (if neg then - int (nat_of_digits u) else int (nat_of_digits u))
                else None)
          else None)"

definition parse_decimal :: "string \<Rightarrow> real option" where
  "parse_decimal s =
     (let ip = takeWhile is_digit s;
          r1 = dropWhile is_digit s;
          (fp, r2) = (case r1 of
                        [] \<Rightarrow> ([], r1)
                      | c # t \<Rightarrow> if c = CHR ''.'' then (takeWhile is_digit t, dropWhile is_digit t)
                                 else ([], r1))
      in if ip = [] \<and> fp = [] then None
         else (case parse_exponent r2 of
                 None \<Rightarrow> None
               | Some e \<Rightarrow>
                   (let m = real (nat_of_digits (ip @ fp)); x = e - int (length fp)
                    in Some (if 0 \<le> x then m * 10 ^ nat x else m / 10 ^ nat (- x)))))"

text \<open>\<^verbatim>\<open>float(s)\<close> for a string: surrounding white space is dropped, then underscores
  between digits, then the text is a signed \<^verbatim>\<open>inf\<close>, \<^verbatim>\<open>infinity\<close> or \<^verbatim>\<open>nan\<close> in any
  case, or a signed decimal number, which is rounded to binary64.\<close>

definition float_of_string :: "string \<Rightarrow> pyfloat option" where
  "float_of_string s =
     (case drop_underscores None (strip s) of
        None \<Rightarrow> None
      | Some u \<Rightarrow>
          (let (neg, t) = split_sign u; lt = map lower t
           in if lt = ''inf'' \<or> lt = ''infinity'' then Some (if neg then NegInf else PosInf)
              else if lt = ''nan'' then Some NaN
              else map_option (\<lambda>r. fl64 (if neg then - r else r)) (parse_decimal t)))"

fun py_float :: "json \<Rightarrow> pyexn + pyfloat" where
  "py_float (JFloat x) = Inr x"
| "py_float (JInt n) =
     (case fl64 (real_of_int n) of
        Finite x \<Rightarrow> Inr (Finite x)
      | _ \<Rightarrow> Inl (OverflowError ''int too large to convert to float''))"
| "py_float (JBool b) = Inr (Finite (if b then 1 else 0))"
| "py_float (JStr s) =
     (case float_of_string s of
        Some x \<Rightarrow> Inr x
      | None \<Rightarrow> Inl (ValueError (''could not convert string to float: '' @ repr_str s)))"
| "py_float v =
     Inl (TypeError (''float() argument must be a string or a real number, not ''
                     @ quoted (type_name v)))"

subsection \<open>The collaborators\<close>

text \<open>\<open>scaler_transform\<close> is \<^verbatim>\<open>scaler.transform\<close>, \<open>model_predict\<close> is \<^verbatim>\<open>model.predict\<close>
  and \<open>model_predict_proba\<close> is \<^verbatim>\<open>model.predict_proba\<close>; \<open>'s\<close> is the state of the two
  loaded objects. \<open>float_str\<close> is Python's text of a float.\<close>

record 's env =
  float_str :: "pyfloat \<Rightarrow> string"
  scaler_transform :: "pyfloat list list \<Rightarrow> 's \<Rightarrow> (pyexn + pyfloat list list) \<times> 's"
  model_predict :: "pyfloat list list \<Rightarrow> 's \<Rightarrow> (pyexn + int list) \<times> 's"
  model_predict_proba :: "pyfloat list list \<Rightarrow> 's \<Rightarrow> (pyexn + pyfloat list list) \<times> 's"

subsection \<open>\<^verbatim>\<open>predict\<close>\<close>

text \<open>Lines 96 to 99.\<close>

definition questions :: "string list" where
  "questions =
     [''age'', ''trauma'', ''vt_history'', ''cancer'', ''lung'', ''renal'', ''diabetes'',
      ''temperature'', ''bmi'', ''edema'', ''immobility'', ''pneumonia'', ''platelets'', ''af'']"

text \<open>\<^verbatim>\<open>data.get(q)\<close>: \<^verbatim>\<open>None\<close> for a key the dict does not have; a body that is not a dict
  has no method \<^verbatim>\<open>get\<close>.\<close>

definition dict_get :: "json \<Rightarrow> string \<Rightarrow> pyexn + json" where
  "dict_get data q =
     (case data of
        JObj kvs \<Rightarrow> Inr (case map_of kvs q of None \<Rightarrow> JNull | Some v \<Rightarrow> v)
      | _ \<Rightarrow> Inl (AttributeError
                   (quoted (type_name data) @ '' object has no attribute '' @ quoted ''get'')))"

text \<open>The body of the loop, lines 104 to 113, for one question \<open>q\<close>: the value appended to
  \<^verbatim>\<open>input_features\<close>, or the early return, or the exception of \<^verbatim>\<open>float(value)\<close>.
  \<^verbatim>\<open>np.array\<close> turns the appended integers 1 and 0 into floats.\<close>

definition feature :: "'s env \<Rightarrow> json \<Rightarrow> string \<Rightarrow> pyfloat flow" where
  "feature E data q =
     (case dict_get data q of
        Inl e \<Rightarrow> Raise e
      | Inr value \<Rightarrow>
          if value = JNull then Return ([(''error'', ''Missing value for: '' @ q)], 400)
          else if q \<in> set [''age'', ''temperature'', ''bmi'', ''platelets''] then
            (case py_float value of Inl e \<Rightarrow> Raise e | Inr x \<Rightarrow> Next x)
          else if value \<notin> set [JStr ''Yes'', JStr ''No''] then
            Return ([(''error'', ''Invalid value for '' @ q @ '': ''
                        @ py_str (float_str E) value @ ''. Must be Yes or No.'')], 400)
          else Next (if value = JStr ''Yes'' then Finite 1 else Finite 0))"

text \<open>The loop of lines 102 to 113 over the questions still to do, with the features
  collected so far.\<close>

fun input_features :: "'s env \<Rightarrow> json \<Rightarrow> string list \<Rightarrow> pyfloat list \<Rightarrow> pyfloat list flow" where
  "input_features E data [] feats = Next feats"
| "input_features E data (q # qs) feats =
     (case feature E data q of
        Raise e \<Rightarrow> Raise e
      | Return r \<Rightarrow> Return r
      | Next x \<Rightarrow> input_features E data qs (feats @ [x]))"

text \<open>Indexing a numpy array along its first axis.\<close>

definition np_index :: "'a list \<Rightarrow> nat \<Rightarrow> pyexn + 'a" where
  "np_index xs i =
     (if i < length xs then Inr (xs ! i)
      else Inl (IndexError (''index '' @ str_nat i @ '' is out of bounds for axis 0 with size ''
                            @ str_nat (length xs))))"

text \<open>Line 120.\<close>

definition pe_probability :: "pyfloat list list \<Rightarrow> pyexn + pyfloat" where
  "pe_probability probabilities =
     (case np_index probabilities 0 of
        Inl e \<Rightarrow> Inl e
      | Inr row \<Rightarrow>
          (case np_index row 1 of
             Inl e \<Rightarrow> Inl e
           | Inr p \<Rightarrow> Inr (py_round2 (times100 p))))"

text \<open>Lines 122 to 130.\<close>

definition risk_level :: "pyfloat \<Rightarrow> string" where
  "risk_level pe =
     (if float_lt pe 35 then ''Low Risk''
      else if float_lt pe 50 then ''Medium Risk''
      else if float_lt pe 75 then ''High Risk''
      else ''Severe Risk'')"

text \<open>Lines 132 to 135; \<^verbatim>\<open>jsonify\<close> alone answers with status 200.\<close>

definition prediction_response :: "'s env \<Rightarrow> pyfloat \<Rightarrow> response" where
  "prediction_response E pe =
     ([(''message'', ''The person has a '' @ float_str E pe
                     @ ''% chance of developing PE in the future.''),
       (''risk_level'', risk_level pe)], 200)"

text \<open>The \<^verbatim>\<open>try\<close> block, lines 102 to 135: the exception it raises or the response it
  returns, and the state of the artifacts after it.\<close>

definition predict_try :: "'s env \<Rightarrow> json \<Rightarrow> 's \<Rightarrow> (pyexn + response) \<times> 's" where
  "predict_try E data s =
     (case input_features E data questions [] of
        Raise e \<Rightarrow> (Inl e, s)
      | Return r \<Rightarrow> (Inr r, s)
      | Next feats \<Rightarrow>
          (case scaler_transform E [feats] s of
             (Inl e, s1) \<Rightarrow> (Inl e, s1)
           | (Inr input_scaled, s1) \<Rightarrow>
               (case model_predict E input_scaled s1 of
                  (Inl e, s2) \<Rightarrow> (Inl e, s2)
                | (Inr prediction, s2) \<Rightarrow>
                    (case model_predict_proba E input_scaled s2 of
                       (Inl e, s3) \<Rightarrow> (Inl e, s3)
                     | (Inr probabilities, s3) \<Rightarrow>
                         (case pe_probability probabilities of
                            Inl e \<Rightarrow> (Inl e, s3)
                          | Inr pe \<Rightarrow> (Inr (prediction_response E pe), s3))))))"

text \<open>Lines 91 to 138.\<close>

definition predict :: "'s env \<Rightarrow> json \<Rightarrow> 's \<Rightarrow> response \<times> 's" where
  "predict E data s =
     (if data = JNull then (([(''error'', ''No JSON data provided'')], 400), s)
      else (case predict_try E data s of
              (Inl e, s') \<Rightarrow> (([(''error'', str_exn e)], 500), s')
            | (Inr r, s') \<Rightarrow> (r, s')))"

subsection \<open>Example requests and stand-ins for the artifacts\<close>

text \<open>The payload of scenario A of the spec (section 8).\<close>

definition scenario_A :: "(string \<times> json) list" where
  "scenario_A =
     [(''age'', JInt 45), (''trauma'', JStr ''No''), (''vt_history'', JStr ''No''),
      (''cancer'', JStr ''No''), (''lung'', JStr ''No''), (''renal'', JStr ''No''),
      (''diabetes'', JStr ''No''), (''temperature'', JFloat (Finite 37)),
      (''bmi'', JFloat (Finite 22.5)), (''edema'', JStr ''No''), (''immobility'', JStr ''No''),
      (''pneumonia'', JStr ''No''), (''platelets'', JInt 250), (''af'', JStr ''No'')]"

definition without :: "string \<Rightarrow> (string \<times> json) list \<Rightarrow> (string \<times> json) list" where
  "without k kvs = filter (\<lambda>kv. fst kv \<noteq> k) kvs"

definition with_value ::
  "string \<Rightarrow> json \<Rightarrow> (string \<times> json) list \<Rightarrow> (string \<times> json) list" where
  "with_value k v kvs = map (\<lambda>kv. if fst kv = k then (k, v) else kv) kvs"

text \<open>The text Python prints for the float nearest to a multiple of 0.01, as every result
  of \<^verbatim>\<open>round(x, 2)\<close> of moderate size is: \<^verbatim>\<open>35.0\<close>, \<^verbatim>\<open>34.5\<close>, \<^verbatim>\<open>34.99\<close>.\<close>

definition hundredths_str :: "pyfloat \<Rightarrow> string" where
  "hundredths_str x =
     (case x of
        Finite r \<Rightarrow>
          (let k = nat (round_half_even (\<bar>r\<bar> * 100)); fr = k mod 100
           in (if r < 0 then ''-'' else []) @ str_nat (k div 100) @ ''.''
              @ (if fr mod 10 = 0 then str_nat (fr div 10)
                 else str_nat (fr div 10) @ str_nat (fr mod 10)))
      | PosInf \<Rightarrow> ''inf''
      | NegInf \<Rightarrow> ''-inf''
      | NaN \<Rightarrow> ''nan'')"

text \<open>A stand-in whose scaler is the identity and whose classifier gives the probability
  \<open>p\<close> (the float nearest to it) to class 1. Its state is never changed.\<close>

definition stub_env :: "real \<Rightarrow> nat env" where
  "stub_env p =
     \<lparr>float_str = hundredths_str,
      scaler_transform = (\<lambda>x n. (Inr x, n)),
      model_predict = (\<lambda>x n. (Inr [if p < 1 / 2 then 0 else 1], n)),
      model_predict_proba = (\<lambda>x n. (Inr [[fl64 (1 - p), fl64 p]], n))\<rparr>"

text \<open>The same with a spy: the state counts the calls of the three methods.\<close>

definition spy_env :: "real \<Rightarrow> nat env" where
  "spy_env p =
     \<lparr>float_str = hundredths_str,
      scaler_transform = (\<lambda>x n. (Inr x, Suc n)),
      model_predict = (\<lambda>x n. (Inr [if p < 1 / 2 then 0 else 1], Suc n)),
      model_predict_proba = (\<lambda>x n. (Inr [[fl64 (1 - p), fl64 p]], Suc n))\<rparr>"

text \<open>A scaler fitted on thirteen features: \<^verbatim>\<open>transform\<close> raises the ValueError of
  scikit-learn.\<close>

definition skewed_scaler_env :: "nat env" where
  "skewed_scaler_env =
     (spy_env (1 / 5))
       \<lparr>scaler_transform := (\<lambda>x n.
          (Inl (ValueError
             ''X has 14 features, but StandardScaler is expecting 13 features as input.''),
           Suc n))\<rparr>"

text \<open>A classifier fitted on one class only: \<^verbatim>\<open>predict_proba\<close> has a single column.\<close>

definition single_class_env :: "nat env" where
  "single_class_env =
     (spy_env 0)\<lparr>model_predict_proba := (\<lambda>x n. (Inr [[Finite 1]], Suc n))\<rparr>"

section \<open>Properties\<close>

subsection \<open>Evaluating floats\<close>

lemmas fl64_eval = fl64_def float_exponent_def exponent_up.simps exponent_down.simps pow2_def
  round_half_even_def Let_def

lemma fl64_45: "fl64 45 = Finite 45"
  by (simp add: fl64_eval)

lemma fl64_250: "fl64 250 = Finite 250"
  by (simp add: fl64_eval)

subsection \<open>The validation loop\<close>

lemma input_features_append:
  "input_features E data (pre @ post) feats =
     (case input_features E data pre feats of
        Raise e \<Rightarrow> Raise e
      | Return r \<Rightarrow> Return r
      | Next feats' \<Rightarrow> input_features E data post feats')"
  by (induction pre arbitrary: feats) (simp_all split: flow.splits)

lemma input_features_all_next:
  "\<forall>q\<in>set qs. feature E data q = Next (f q) \<Longrightarrow>
   input_features E data qs feats = Next (feats @ map f qs)"
  by (induction qs arbitrary: feats) simp_all

lemma input_features_passes:
  "\<forall>p\<in>set pre. \<exists>x. feature E data p = Next x \<Longrightarrow>
   \<exists>feats'. input_features E data pre feats = Next feats'"
  by (induction pre arbitrary: feats) auto

lemma input_features_first_return:
  assumes "\<forall>p\<in>set pre. \<exists>x. feature E data p = Next x"
    and "feature E data q = Return r"
  shows "input_features E data (pre @ q # post) feats = Return r"
proof -
  obtain feats' where "input_features E data pre feats = Next feats'"
    using input_features_passes [OF assms(1)] by blast
  then show ?thesis
    by (simp add: input_features_append assms(2))
qed

lemma split_at_first:
  "q \<in> set xs \<Longrightarrow>
   xs = takeWhile (\<lambda>p. p \<noteq> q) xs @ q # tl (dropWhile (\<lambda>p. p \<noteq> q) xs)"
  by (induction xs) auto

text \<open>The loop only reads \<open>float_str\<close> of the environment.\<close>

lemma feature_other_artifacts:
  "feature (E\<lparr>scaler_transform := sc, model_predict := mp, model_predict_proba := pp\<rparr>) data q
   = feature E data q"
  by (simp add: feature_def split: sum.splits)

lemma input_features_other_artifacts:
  "input_features (E\<lparr>scaler_transform := sc, model_predict := mp, model_predict_proba := pp\<rparr>)
     data qs feats
   = input_features E data qs feats"
  by (induction qs arbitrary: feats) (simp_all add: feature_other_artifacts split: flow.splits)

text \<open>A body that is not a dict makes the first \<^verbatim>\<open>data.get\<close> raise.\<close>

lemma input_features_no_dict:
  "\<forall>kvs. data \<noteq> JObj kvs \<Longrightarrow> \<exists>e. input_features E data questions [] = Raise e"
  by (cases data) (simp_all add: questions_def feature_def dict_get_def)

subsection \<open>The ways out of \<^verbatim>\<open>predict\<close>\<close>

lemma predict_return:
  assumes "data \<noteq> JNull" and "input_features E data questions [] = Return r"
  shows "predict E data s = (r, s)"
  using assms by (simp add: predict_def predict_try_def)

lemma predict_raise:
  assumes "data \<noteq> JNull" and "input_features E data questions [] = Raise e"
  shows "predict E data s = (([(''error'', str_exn e)], 500), s)"
  using assms by (simp add: predict_def predict_try_def)

lemma predict_stops_at_return:
  assumes "q \<in> set questions" and "data \<noteq> JNull"
    and "\<forall>p\<in>set (takeWhile (\<lambda>p. p \<noteq> q) questions). \<exists>x. feature E data p = Next x"
    and "feature E data q = Return r"
  shows "predict E data s = (r, s)"
proof -
  have "input_features E data
          (takeWhile (\<lambda>p. p \<noteq> q) questions @ q # tl (dropWhile (\<lambda>p. p \<noteq> q) questions)) []
        = Return r"
    using assms(3,4) by (rule input_features_first_return)
  then have "input_features E data questions [] = Return r"
    using split_at_first [OF assms(1)] by simp
  with assms(2) show ?thesis by (rule predict_return)
qed

text \<open>A response with status 400 comes from line 94 or from an early return of the loop;
  the artifacts are in the state they were in.\<close>

lemma predict_400_cases:
  assumes "predict E data s = (r, s')" and "snd r = 400"
  shows "s' = s \<and> (data = JNull \<and> r = ([(''error'', ''No JSON data provided'')], 400)
                  \<or> data \<noteq> JNull \<and> input_features E data questions [] = Return r)"
  using assms
  by (auto simp: predict_def predict_try_def prediction_response_def
           split: if_splits flow.splits sum.splits prod.splits)

subsection \<open>The example requests\<close>

lemma scenario_A_features:
  "input_features E (JObj scenario_A) questions [] =
     Next [Finite 45, Finite 0, Finite 0, Finite 0, Finite 0, Finite 0, Finite 0, Finite 37,
           Finite 22.5, Finite 0, Finite 0, Finite 0, Finite 250, Finite 0]"
  by (simp add: questions_def feature_def dict_get_def scenario_A_def fl64_45 fl64_250)

lemma scenario_B_features:
  "input_features E (JObj (without ''bmi'' scenario_A)) questions [] =
     Return ([(''error'', ''Missing value for: bmi'')], 400)"
  by (simp add: questions_def feature_def dict_get_def scenario_A_def without_def
        fl64_45 fl64_250)

subsection \<open>Risk tiers\<close>

text \<open>
  C1. The tier of a probability \<open>p\<close> in percent (lines 122 to 130) follows half-open
  intervals with the lower bound included: Low on [0, 35), Medium on [35, 50), High on
  [50, 75) and Severe on [75, 100].
\<close>

theorem risk_level_intervals:
  "(0 \<le> p \<and> p < 35 \<longrightarrow> risk_level (Finite p) = ''Low Risk'') \<and>
   (35 \<le> p \<and> p < 50 \<longrightarrow> risk_level (Finite p) = ''Medium Risk'') \<and>
   (50 \<le> p \<and> p < 75 \<longrightarrow> risk_level (Finite p) = ''High Risk'') \<and>
   (75 \<le> p \<and> p \<le> 100 \<longrightarrow> risk_level (Finite p) = ''Severe Risk'')"
  by (simp add: risk_level_def)

text \<open>The boundary values named by the spec: 34.99, 35.00, 49.99, 50.00, 74.99, 75.00, 0
  and 100.\<close>

theorem risk_level_intervals_witness:
  "risk_level (Finite 34.99) = ''Low Risk'' \<and>
   risk_level (Finite 35) = ''Medium Risk'' \<and>
   risk_level (Finite 49.99) = ''Medium Risk'' \<and>
   risk_level (Finite 50) = ''High Risk'' \<and>
   risk_level (Finite 74.99) = ''High Risk'' \<and>
   risk_level (Finite 75) = ''Severe Risk'' \<and>
   risk_level (Finite 0) = ''Low Risk'' \<and>
   risk_level (Finite 100) = ''Severe Risk''"
  using risk_level_intervals [of "34.99"] risk_level_intervals [of 35]
    risk_level_intervals [of "49.99"] risk_level_intervals [of 50]
    risk_level_intervals [of "74.99"] risk_level_intervals [of 75]
    risk_level_intervals [of 0] risk_level_intervals [of 100]
  by simp

subsection \<open>Validation errors leave the artifacts alone\<close>

text \<open>
  C5. When \<^verbatim>\<open>predict\<close> answers with status 400 (no JSON body, a missing value or an
  invalid Yes/No value), neither the scaler nor the classifier has been called: the state of
  the artifacts is untouched, and the answer is the same whatever the three methods are.
\<close>

theorem validation_error_before_artifacts:
  assumes "predict E data s = (r, s')" and "snd r = 400"
  shows "s' = s \<and>
         predict (E\<lparr>scaler_transform := sc, model_predict := mp, model_predict_proba := pp\<rparr>)
           data s = (r, s)"
proof -
  from predict_400_cases [OF assms]
  have st: "s' = s"
    and cases: "data = JNull \<and> r = ([(''error'', ''No JSON data provided'')], 400)
                \<or> data \<noteq> JNull \<and> input_features E data questions [] = Return r"
    by simp_all
  from cases
  have "predict (E\<lparr>scaler_transform := sc, model_predict := mp, model_predict_proba := pp\<rparr>)
          data s = (r, s)"
  proof
    assume "data = JNull \<and> r = ([(''error'', ''No JSON data provided'')], 400)"
    then show ?thesis by (simp add: predict_def)
  next
    assume a: "data \<noteq> JNull \<and> input_features E data questions [] = Return r"
    then have "input_features
                 (E\<lparr>scaler_transform := sc, model_predict := mp, model_predict_proba := pp\<rparr>)
                 data questions [] = Return r"
      by (simp add: input_features_other_artifacts)
    with a show ?thesis by (simp add: predict_return)
  qed
  with st show ?thesis by simp
qed

text \<open>Scenario B of the spec with a spy: \<^verbatim>\<open>bmi\<close> is omitted, the answer names it and the
  count of calls stays 0, also when every method of the artifacts would raise.\<close>

theorem validation_error_before_artifacts_witness:
  "predict (spy_env (1 / 5)) (JObj (without ''bmi'' scenario_A)) 0
     = (([(''error'', ''Missing value for: bmi'')], 400), 0) \<and>
   predict ((spy_env (1 / 5))
              \<lparr>scaler_transform := (\<lambda>x n. (Inl (OtherError ''called''), Suc n)),
               model_predict := (\<lambda>x n. (Inl (OtherError ''called''), Suc n)),
               model_predict_proba := (\<lambda>x n. (Inl (OtherError ''called''), Suc n))\<rparr>)
     (JObj (without ''bmi'' scenario_A)) 0
     = (([(''error'', ''Missing value for: bmi'')], 400), 0)"
proof -
  have run: "predict (spy_env (1 / 5)) (JObj (without ''bmi'' scenario_A)) 0
               = (([(''error'', ''Missing value for: bmi'')], 400), 0)"
    by (simp add: predict_return scenario_B_features)
  have "snd ([(''error'', ''Missing value for: bmi'')], 400 :: nat) = 400"
    by simp
  from validation_error_before_artifacts [OF run this] run show ?thesis
    by simp
qed

subsection \<open>Conversions of the example values\<close>

lemma py_float_abc:
  "py_float (JStr ''abc'')
     = Inl (ValueError (''could not convert string to float: '' @ quoted ''abc''))"
  by (simp add: float_of_string_def strip_def is_space_def split_sign_def lower_def
        parse_decimal_def is_digit_def repr_str_def repr_char_def quoted_def Let_def)

lemma py_float_37_5:
  "py_float (JStr ''37.5'') = Inr (Finite 37.5)"
  by (simp add: float_of_string_def strip_def is_space_def split_sign_def lower_def
        parse_decimal_def is_digit_def parse_exponent_def nat_of_digits_def digit_val_def
        fl64_eval)

subsection \<open>Missing fields\<close>

text \<open>
  C3, as amended. For each of the fourteen questions \<open>q\<close>: a request object in which \<open>q\<close> is
  absent or null, and in which every question before \<open>q\<close> in the order of \<open>questions\<close>
  passes its own check, is answered with status 400 and the message
  \<^verbatim>\<open>Missing value for: q\<close>; neither scaler nor classifier is called.
\<close>

theorem missing_field_reported:
  assumes "q \<in> set questions"
    and "map_of kvs q = None \<or> map_of kvs q = Some JNull"
    and "\<forall>p\<in>set (takeWhile (\<lambda>p. p \<noteq> q) questions). \<exists>x. feature E (JObj kvs) p = Next x"
  shows "predict E (JObj kvs) s = (([(''error'', ''Missing value for: '' @ q)], 400), s)"
proof -
  have "feature E (JObj kvs) q = Return ([(''error'', ''Missing value for: '' @ q)], 400)"
    using assms(2) by (auto simp: feature_def dict_get_def)
  with assms(1) _ assms(3) show ?thesis
    by (rule predict_stops_at_return) simp
qed

text \<open>Scenario B: \<^verbatim>\<open>bmi\<close> is omitted from the payload of scenario A.\<close>

theorem missing_field_reported_witness:
  "map_of (without ''bmi'' scenario_A) ''bmi'' = None \<and>
   predict (stub_env (1 / 5)) (JObj (without ''bmi'' scenario_A)) 0
     = (([(''error'', ''Missing value for: bmi'')], 400), 0)"
proof -
  have h1: "''bmi'' \<in> set questions"
    by (simp add: questions_def)
  have h2: "map_of (without ''bmi'' scenario_A) ''bmi'' = None"
    by (simp add: without_def scenario_A_def)
  have h3: "\<forall>p\<in>set (takeWhile (\<lambda>p. p \<noteq> ''bmi'') questions).
              \<exists>x. feature (stub_env (1 / 5)) (JObj (without ''bmi'' scenario_A)) p = Next x"
    by (simp add: questions_def feature_def dict_get_def without_def scenario_A_def
          fl64_45 fl64_250)
  from missing_field_reported [OF h1 disjI1 [OF h2] h3, of 0] h2 show ?thesis
    by simp
qed

text \<open>The claim as stated, for every request in which the field is absent, fails when an
  earlier field is absent too: without \<^verbatim>\<open>age\<close> and \<^verbatim>\<open>bmi\<close> the answer names
  \<^verbatim>\<open>age\<close> only.\<close>

theorem missing_field_counterexample:
  "map_of (without ''age'' (without ''bmi'' scenario_A)) ''bmi'' = None \<and>
   predict (stub_env (1 / 5)) (JObj (without ''age'' (without ''bmi'' scenario_A))) 0
     = (([(''error'', ''Missing value for: age'')], 400), 0) \<and>
   fst (predict (stub_env (1 / 5)) (JObj (without ''age'' (without ''bmi'' scenario_A))) 0)
     \<noteq> ([(''error'', ''Missing value for: bmi'')], 400)"
proof -
  have "input_features (stub_env (1 / 5))
          (JObj (without ''age'' (without ''bmi'' scenario_A))) questions []
        = Return ([(''error'', ''Missing value for: age'')], 400)"
    by (simp add: questions_def feature_def dict_get_def without_def scenario_A_def)
  then have "predict (stub_env (1 / 5)) (JObj (without ''age'' (without ''bmi'' scenario_A))) 0
               = (([(''error'', ''Missing value for: age'')], 400), 0)"
    by (simp add: predict_return)
  then show ?thesis
    by (simp add: without_def scenario_A_def)
qed

subsection \<open>Yes/No fields\<close>

text \<open>The check of one Yes/No question (lines 105 to 112) on a value other than the two
  exact strings.\<close>

lemma feature_rejects_other_values:
  assumes "q \<in> set [''trauma'', ''vt_history'', ''cancer'', ''lung'', ''renal'', ''diabetes'',
                     ''edema'', ''immobility'', ''pneumonia'', ''af'']"
    and "dict_get data q = Inr v"
    and "v \<noteq> JStr ''Yes''" and "v \<noteq> JStr ''No''"
  shows "feature E data q
           = Return ([(''error'',
                if v = JNull then ''Missing value for: '' @ q
                else ''Invalid value for '' @ q @ '': '' @ py_str (float_str E) v
                     @ ''. Must be Yes or No.'')], 400)"
proof -
  from assms(1) have "q \<notin> set [''age'', ''temperature'', ''bmi'', ''platelets'']"
    by auto
  then show ?thesis
    using assms(2,3,4) by (simp add: feature_def)
qed

text \<open>
  C4, as amended. For each of the ten Yes/No questions \<open>q\<close>: in a request in which every
  question before \<open>q\<close> in the order of \<open>questions\<close> passes its own check, a value of \<open>q\<close>
  other than exactly the string \<^verbatim>\<open>Yes\<close> or the string \<^verbatim>\<open>No\<close> is rejected with status
  400 and a message that names \<open>q\<close>: \<^verbatim>\<open>Invalid value for q: value. Must be Yes or No.\<close>,
  or for null the message of a missing value. The match is exact: nothing is normalised.
\<close>

theorem yes_no_exact:
  assumes "q \<in> set [''trauma'', ''vt_history'', ''cancer'', ''lung'', ''renal'', ''diabetes'',
                     ''edema'', ''immobility'', ''pneumonia'', ''af'']"
    and "dict_get data q = Inr v"
    and "v \<noteq> JStr ''Yes''" and "v \<noteq> JStr ''No''"
    and "\<forall>p\<in>set (takeWhile (\<lambda>p. p \<noteq> q) questions). \<exists>x. feature E data p = Next x"
  shows "predict E data s
           = (([(''error'',
                 if v = JNull then ''Missing value for: '' @ q
                 else ''Invalid value for '' @ q @ '': '' @ py_str (float_str E) v
                      @ ''. Must be Yes or No.'')], 400), s)"
proof -
  from assms(1) have inq: "q \<in> set questions"
    by (auto simp: questions_def)
  from assms(2) have nonnull: "data \<noteq> JNull"
    by (auto simp: dict_get_def)
  from inq nonnull assms(5) feature_rejects_other_values [OF assms(1-4)]
  show ?thesis
    by (rule predict_stops_at_return)
qed

text \<open>The values named by the spec: \<^verbatim>\<open>"yes"\<close>, \<^verbatim>\<open>"1"\<close>, \<^verbatim>\<open>true\<close> and the empty string.\<close>

theorem yes_no_exact_witness:
  "predict (stub_env (1 / 5)) (JObj (with_value ''trauma'' (JStr ''yes'') scenario_A)) 0
     = (([(''error'', ''Invalid value for trauma: yes. Must be Yes or No.'')], 400), 0) \<and>
   predict (stub_env (1 / 5)) (JObj (with_value ''cancer'' (JStr ''1'') scenario_A)) 0
     = (([(''error'', ''Invalid value for cancer: 1. Must be Yes or No.'')], 400), 0) \<and>
   predict (stub_env (1 / 5)) (JObj (with_value ''edema'' (JBool True) scenario_A)) 0
     = (([(''error'', ''Invalid value for edema: True. Must be Yes or No.'')], 400), 0) \<and>
   predict (stub_env (1 / 5)) (JObj (with_value ''af'' (JStr []) scenario_A)) 0
     = (([(''error'', ''Invalid value for af: . Must be Yes or No.'')], 400), 0)"
proof -
  note defs = questions_def feature_def dict_get_def with_value_def scenario_A_def
    fl64_45 fl64_250 py_str_def
  have "predict (stub_env (1 / 5)) (JObj (with_value ''trauma'' (JStr ''yes'') scenario_A)) 0
     = (([(''error'', ''Invalid value for trauma: yes. Must be Yes or No.'')], 400), 0)"
    using yes_no_exact [of "''trauma''"
        "JObj (with_value ''trauma'' (JStr ''yes'') scenario_A)" "JStr ''yes''"
        "stub_env (1 / 5)" 0]
    by (simp add: defs)
  moreover
  have "predict (stub_env (1 / 5)) (JObj (with_value ''cancer'' (JStr ''1'') scenario_A)) 0
     = (([(''error'', ''Invalid value for cancer: 1. Must be Yes or No.'')], 400), 0)"
    using yes_no_exact [of "''cancer''"
        "JObj (with_value ''cancer'' (JStr ''1'') scenario_A)" "JStr ''1''"
        "stub_env (1 / 5)" 0]
    by (simp add: defs)
  moreover
  have "predict (stub_env (1 / 5)) (JObj (with_value ''edema'' (JBool True) scenario_A)) 0
     = (([(''error'', ''Invalid value for edema: True. Must be Yes or No.'')], 400), 0)"
    using yes_no_exact [of "''edema''"
        "JObj (with_value ''edema'' (JBool True) scenario_A)" "JBool True"
        "stub_env (1 / 5)" 0]
    by (simp add: defs)
  moreover
  have "predict (stub_env (1 / 5)) (JObj (with_value ''af'' (JStr []) scenario_A)) 0
     = (([(''error'', ''Invalid value for af: . Must be Yes or No.'')], 400), 0)"
    using yes_no_exact [of "''af''"
        "JObj (with_value ''af'' (JStr []) scenario_A)" "JStr []"
        "stub_env (1 / 5)" 0]
    by (simp add: defs)
  ultimately show ?thesis by simp
qed

text \<open>The claim as stated, for any value of the field whatever the rest of the request,
  fails when an earlier field offends: with \<^verbatim>\<open>age\<close> absent and \<^verbatim>\<open>trauma = "maybe"\<close> the
  answer names \<^verbatim>\<open>age\<close>, not \<^verbatim>\<open>trauma\<close>.\<close>

theorem yes_no_counterexample:
  "dict_get (JObj (without ''age'' (with_value ''trauma'' (JStr ''maybe'') scenario_A)))
     ''trauma'' = Inr (JStr ''maybe'') \<and>
   predict (stub_env (1 / 5))
     (JObj (without ''age'' (with_value ''trauma'' (JStr ''maybe'') scenario_A))) 0
     = (([(''error'', ''Missing value for: age'')], 400), 0) \<and>
   fst (predict (stub_env (1 / 5))
     (JObj (without ''age'' (with_value ''trauma'' (JStr ''maybe'') scenario_A))) 0)
     \<noteq> ([(''error'', ''Invalid value for trauma: maybe. Must be Yes or No.'')], 400)"
proof -
  have "input_features (stub_env (1 / 5))
          (JObj (without ''age'' (with_value ''trauma'' (JStr ''maybe'') scenario_A)))
          questions []
        = Return ([(''error'', ''Missing value for: age'')], 400)"
    by (simp add: questions_def feature_def dict_get_def without_def with_value_def
          scenario_A_def)
  then have "predict (stub_env (1 / 5))
               (JObj (without ''age'' (with_value ''trauma'' (JStr ''maybe'') scenario_A))) 0
               = (([(''error'', ''Missing value for: age'')], 400), 0)"
    by (simp add: predict_return)
  then show ?thesis
    by (simp add: dict_get_def without_def with_value_def scenario_A_def)
qed

subsection \<open>Numeric fields\<close>

text \<open>
  C2. A numeric field whose value \<^verbatim>\<open>float\<close> cannot parse does not get the answer the Yes/No
  fields get (status 400, the field named): the ValueError of \<^verbatim>\<open>float(value)\<close>, line 109,
  falls through to the handler of line 137. With \<^verbatim>\<open>age = "abc"\<close> in the payload of scenario A
  the answer has status 500 and the text of the exception, which names the value and not the
  field. The numeric string \<^verbatim>\<open>"37.5"\<close> is parsed to 37.5.
\<close>

theorem unparsable_number_answer:
  "predict E (JObj (with_value ''age'' (JStr ''abc'') scenario_A)) s
     = (([(''error'', ''could not convert string to float: '' @ quoted ''abc'')], 500), s) \<and>
   py_float (JStr ''37.5'') = Inr (Finite 37.5)"
proof -
  have "input_features E (JObj (with_value ''age'' (JStr ''abc'') scenario_A)) questions []
          = Raise (ValueError (''could not convert string to float: '' @ quoted ''abc''))"
    by (simp add: questions_def feature_def dict_get_def with_value_def scenario_A_def
          py_float_abc del: py_float.simps)
  then show ?thesis
    by (simp add: predict_raise py_float_37_5 del: py_float.simps)
qed

subsection \<open>Several offending fields\<close>

text \<open>
  C10. When the earliest offending field is a numeric field that does not parse, no field is
  named at all: with \<^verbatim>\<open>age = "abc"\<close> and \<^verbatim>\<open>trauma\<close> missing, the answer is the status-500
  text of the ValueError of \<^verbatim>\<open>float\<close>, which names neither \<^verbatim>\<open>age\<close> nor \<^verbatim>\<open>trauma\<close>.
\<close>

theorem earliest_offender_unnamed:
  "predict E (JObj (without ''trauma'' (with_value ''age'' (JStr ''abc'') scenario_A))) s
     = (([(''error'', ''could not convert string to float: '' @ quoted ''abc'')], 500), s)"
proof -
  have "input_features E
          (JObj (without ''trauma'' (with_value ''age'' (JStr ''abc'') scenario_A))) questions []
          = Raise (ValueError (''could not convert string to float: '' @ quoted ''abc''))"
    by (simp add: questions_def feature_def dict_get_def with_value_def without_def
          scenario_A_def py_float_abc del: py_float.simps)
  then show ?thesis
    by (simp add: predict_raise)
qed

subsection \<open>Rounding before the tier\<close>

lemma input_features_next_not_null:
  assumes "input_features E data questions [] = Next feats"
  shows "data \<noteq> JNull"
proof
  assume "data = JNull"
  then have "\<forall>kvs. data \<noteq> JObj kvs" by simp
  then obtain e where "input_features E data questions [] = Raise e"
    using input_features_no_dict by blast
  with assms show False by simp
qed

text \<open>
  C6. When the request is valid and the artifacts answer, with \<open>p\<close> the entry
  \<^verbatim>\<open>probabilities[0][1]\<close>, the response is built from the single value
  \<^verbatim>\<open>round(p * 100, 2)\<close>, product and rounding in binary64: the message prints it and
  the risk tier is the tier of it.
\<close>

theorem message_and_tier_from_rounded:
  assumes "input_features E data questions [] = Next feats"
    and "scaler_transform E [feats] s = (Inr input_scaled, s1)"
    and "model_predict E input_scaled s1 = (Inr prediction, s2)"
    and "model_predict_proba E input_scaled s2 = (Inr probabilities, s3)"
    and "np_index probabilities 0 = Inr row"
    and "np_index row 1 = Inr p"
  shows "predict E data s
           = (([(''message'', ''The person has a '' @ float_str E (py_round2 (times100 p))
                               @ ''% chance of developing PE in the future.''),
                (''risk_level'', risk_level (py_round2 (times100 p)))], 200), s3)"
proof -
  have "data \<noteq> JNull"
    using assms(1) by (rule input_features_next_not_null)
  moreover have "pe_probability probabilities = Inr (py_round2 (times100 p))"
    using assms(5,6) by (simp add: pe_probability_def)
  ultimately show ?thesis
    using assms(1-4) by (simp add: predict_def predict_try_def prediction_response_def)
qed

text \<open>The run of the spy on the payload of scenario A, for a class-1 probability \<open>p\<close>.\<close>

lemma np_index_first: "np_index [row] 0 = Inr row"
  by (simp add: np_index_def)

lemma np_index_second: "np_index [a, b] 1 = Inr b"
  by (simp add: np_index_def)

lemma spy_scaler: "scaler_transform (spy_env p) x 0 = (Inr x, 1)"
  by (simp add: spy_env_def)

lemma spy_predict: "model_predict (spy_env p) x 1 = (Inr [if p < 1 / 2 then 0 else 1], 2)"
  by (simp add: spy_env_def)

lemma spy_proba: "model_predict_proba (spy_env p) x 2 = (Inr [[fl64 (1 - p), fl64 p]], 3)"
  by (simp add: spy_env_def)

lemma spy_float_str: "float_str (spy_env p) = hundredths_str"
  by (simp add: spy_env_def)

text \<open>Three probabilities. For 0.49995 the product with 100 is the float just below 49.995
  and the rounded value is 49.99, where exact arithmetic would give a tie and 50.0. For
  0.34999 the product lies below the threshold 35 and the rounded value 35.0 does not. For
  0.3496 the rounded value keeps two decimals, 34.96.\<close>

lemma product_0_49995:
  "times100 (fl64 0.49995) = Finite (7036170730324623 / 2 ^ 47) \<and>
   7036170730324623 / 2 ^ 47 < (49.995 :: real)"
  by (simp add: fl64_eval)

lemma round_0_49995: "py_round2 (times100 (fl64 0.49995)) = fl64 49.99"
  by (simp add: fl64_eval)

lemma round_0_34999: "py_round2 (times100 (fl64 0.34999)) = Finite 35"
  by (simp add: fl64_eval)

lemma round_0_3496: "py_round2 (times100 (fl64 0.3496)) = fl64 34.96"
  by (simp add: fl64_eval)

lemma text_49_99: "hundredths_str (fl64 49.99) = ''49.99''"
  by (simp add: hundredths_str_def fl64_eval str_nat.simps)

lemma text_35: "hundredths_str (Finite 35) = ''35.0''"
  by (simp add: hundredths_str_def round_half_even_def Let_def str_nat.simps)

lemma text_34_96: "hundredths_str (fl64 34.96) = ''34.96''"
  by (simp add: hundredths_str_def fl64_eval str_nat.simps)

lemma tier_49_99: "risk_level (fl64 49.99) = ''Medium Risk''"
  by (simp add: risk_level_def fl64_eval)

lemma tier_35: "risk_level (Finite 35) = ''Medium Risk''"
  by (simp add: risk_level_def)

lemma tier_34_96: "risk_level (fl64 34.96) = ''Low Risk''"
  by (simp add: risk_level_def fl64_eval)

lemma tier_unrounded_0_34999: "risk_level (times100 (fl64 0.34999)) = ''Low Risk''"
  by (simp add: risk_level_def fl64_eval)

theorem message_and_tier_from_rounded_witness:
  "predict (spy_env 0.49995) (JObj scenario_A) 0
     = (([(''message'', ''The person has a 49.99% chance of developing PE in the future.''),
          (''risk_level'', ''Medium Risk'')], 200), 3) \<and>
   predict (spy_env 0.34999) (JObj scenario_A) 0
     = (([(''message'', ''The person has a 35.0% chance of developing PE in the future.''),
          (''risk_level'', ''Medium Risk'')], 200), 3) \<and>
   risk_level (times100 (fl64 0.34999)) = ''Low Risk'' \<and>
   predict (spy_env 0.3496) (JObj scenario_A) 0
     = (([(''message'', ''The person has a 34.96% chance of developing PE in the future.''),
          (''risk_level'', ''Low Risk'')], 200), 3)"
proof -
  note run = message_and_tier_from_rounded
    [OF scenario_A_features spy_scaler spy_predict spy_proba np_index_first np_index_second]
  have "predict (spy_env 0.49995) (JObj scenario_A) 0
     = (([(''message'', ''The person has a 49.99% chance of developing PE in the future.''),
          (''risk_level'', ''Medium Risk'')], 200), 3)"
    using run [of "0.49995"]
    by (simp only: round_0_49995 spy_float_str text_49_99 tier_49_99 append.simps)
  moreover
  have "predict (spy_env 0.34999) (JObj scenario_A) 0
     = (([(''message'', ''The person has a 35.0% chance of developing PE in the future.''),
          (''risk_level'', ''Medium Risk'')], 200), 3)"
    using run [of "0.34999"]
    by (simp only: round_0_34999 spy_float_str text_35 tier_35 append.simps)
  moreover
  have "predict (spy_env 0.3496) (JObj scenario_A) 0
     = (([(''message'', ''The person has a 34.96% chance of developing PE in the future.''),
          (''risk_level'', ''Low Risk'')], 200), 3)"
    using run [of "0.3496"]
    by (simp only: round_0_3496 spy_float_str text_34_96 tier_34_96 append.simps)
  ultimately show ?thesis
    using tier_unrounded_0_34999 by simp
qed

subsection \<open>The feature vector\<close>

lemma feature_numeric:
  assumes "q \<in> set [''age'', ''temperature'', ''bmi'', ''platelets'']"
    and "map_of kvs q = Some v" and "v \<noteq> JNull" and "py_float v = Inr x"
  shows "feature E (JObj kvs) q = Next x"
  using assms by (simp add: feature_def dict_get_def del: py_float.simps)

lemma feature_yes_no:
  assumes "q \<notin> set [''age'', ''temperature'', ''bmi'', ''platelets'']"
    and "map_of kvs q = Some (JStr (if y then ''Yes'' else ''No''))"
  shows "feature E (JObj kvs) q = Next (Finite (if y then 1 else 0))"
  using assms by (simp add: feature_def dict_get_def)

lemma feature_same_lookup:
  "map_of kvs' q = map_of kvs q \<Longrightarrow> feature E (JObj kvs') q = feature E (JObj kvs) q"
  by (simp add: feature_def dict_get_def)

lemma input_features_same_features:
  "\<forall>q\<in>set qs. feature E data' q = feature E data q \<Longrightarrow>
   input_features E data' qs feats = input_features E data qs feats"
  by (induction qs arbitrary: feats) (simp_all split: flow.splits)

text \<open>
  C7. For a payload in which the four numeric fields are present and converted by
  \<^verbatim>\<open>float\<close> (to \<open>num q\<close>) and the ten Yes/No fields hold \<^verbatim>\<open>Yes\<close> or \<^verbatim>\<open>No\<close>, the loop
  produces the fourteen values in the order of \<open>questions\<close>: age, trauma, vt_history, cancer,
  lung, renal, diabetes, temperature, bmi, edema, immobility, pneumonia, platelets, af, with
  1.0 for \<^verbatim>\<open>Yes\<close> and 0.0 for \<^verbatim>\<open>No\<close>. The result only depends on the value found under each
  of the fourteen keys, not on the order of the items of the payload.
\<close>

theorem feature_vector_order:
  assumes num: "\<forall>q\<in>set [''age'', ''temperature'', ''bmi'', ''platelets''].
                  \<exists>v. map_of kvs q = Some v \<and> v \<noteq> JNull \<and> py_float v = Inr (num q)"
    and yn: "\<forall>q\<in>set [''trauma'', ''vt_history'', ''cancer'', ''lung'', ''renal'', ''diabetes'',
                       ''edema'', ''immobility'', ''pneumonia'', ''af''].
               map_of kvs q = Some (JStr (if yes q then ''Yes'' else ''No''))"
  shows "input_features E (JObj kvs) questions []
           = Next [num ''age'',
                   Finite (if yes ''trauma'' then 1 else 0),
                   Finite (if yes ''vt_history'' then 1 else 0),
                   Finite (if yes ''cancer'' then 1 else 0),
                   Finite (if yes ''lung'' then 1 else 0),
                   Finite (if yes ''renal'' then 1 else 0),
                   Finite (if yes ''diabetes'' then 1 else 0),
                   num ''temperature'',
                   num ''bmi'',
                   Finite (if yes ''edema'' then 1 else 0),
                   Finite (if yes ''immobility'' then 1 else 0),
                   Finite (if yes ''pneumonia'' then 1 else 0),
                   num ''platelets'',
                   Finite (if yes ''af'' then 1 else 0)] \<and>
         ((\<forall>q\<in>set questions. map_of kvs' q = map_of kvs q) \<longrightarrow>
          input_features E (JObj kvs') questions [] = input_features E (JObj kvs) questions [])"
proof -
  let ?f = "\<lambda>q. if q \<in> set [''age'', ''temperature'', ''bmi'', ''platelets''] then num q
                 else Finite (if yes q then 1 else 0)"
  have each: "feature E (JObj kvs) q = Next (?f q)" if "q \<in> set questions" for q
  proof (cases "q \<in> set [''age'', ''temperature'', ''bmi'', ''platelets'']")
    case True
    with num obtain v where "map_of kvs q = Some v" "v \<noteq> JNull" "py_float v = Inr (num q)"
      by blast
    with True have "feature E (JObj kvs) q = Next (num q)"
      by (rule feature_numeric)
    with True show ?thesis by simp
  next
    case False
    with that have "q \<in> set [''trauma'', ''vt_history'', ''cancer'', ''lung'', ''renal'',
                              ''diabetes'', ''edema'', ''immobility'', ''pneumonia'', ''af'']"
      by (auto simp: questions_def)
    with yn have "map_of kvs q = Some (JStr (if yes q then ''Yes'' else ''No''))"
      by blast
    with False have "feature E (JObj kvs) q = Next (Finite (if yes q then 1 else 0))"
      by (rule feature_yes_no)
    with False show ?thesis by simp
  qed
  then have all: "\<forall>q\<in>set questions. feature E (JObj kvs) q = Next (?f q)"
    by blast
  have m: "map ?f questions
             = [num ''age'',
                Finite (if yes ''trauma'' then 1 else 0),
                Finite (if yes ''vt_history'' then 1 else 0),
                Finite (if yes ''cancer'' then 1 else 0),
                Finite (if yes ''lung'' then 1 else 0),
                Finite (if yes ''renal'' then 1 else 0),
                Finite (if yes ''diabetes'' then 1 else 0),
                num ''temperature'',
                num ''bmi'',
                Finite (if yes ''edema'' then 1 else 0),
                Finite (if yes ''immobility'' then 1 else 0),
                Finite (if yes ''pneumonia'' then 1 else 0),
                num ''platelets'',
                Finite (if yes ''af'' then 1 else 0)]"
    by (simp add: questions_def)
  have "input_features E (JObj kvs) questions [] = Next ([] @ map ?f questions)"
    using all by (rule input_features_all_next)
  then have first: "input_features E (JObj kvs) questions []
           = Next [num ''age'',
                   Finite (if yes ''trauma'' then 1 else 0),
                   Finite (if yes ''vt_history'' then 1 else 0),
                   Finite (if yes ''cancer'' then 1 else 0),
                   Finite (if yes ''lung'' then 1 else 0),
                   Finite (if yes ''renal'' then 1 else 0),
                   Finite (if yes ''diabetes'' then 1 else 0),
                   num ''temperature'',
                   num ''bmi'',
                   Finite (if yes ''edema'' then 1 else 0),
                   Finite (if yes ''immobility'' then 1 else 0),
                   Finite (if yes ''pneumonia'' then 1 else 0),
                   num ''platelets'',
                   Finite (if yes ''af'' then 1 else 0)]"
    by (simp only: m append_Nil)
  have second: "input_features E (JObj kvs') questions []
                  = input_features E (JObj kvs) questions []"
    if "\<forall>q\<in>set questions. map_of kvs' q = map_of kvs q"
  proof (rule input_features_same_features)
    show "\<forall>q\<in>set questions. feature E (JObj kvs') q = feature E (JObj kvs) q"
      using that by (blast intro: feature_same_lookup)
  qed
  show ?thesis
  proof (intro conjI impI)
    show "input_features E (JObj kvs) questions []
           = Next [num ''age'',
                   Finite (if yes ''trauma'' then 1 else 0),
                   Finite (if yes ''vt_history'' then 1 else 0),
                   Finite (if yes ''cancer'' then 1 else 0),
                   Finite (if yes ''lung'' then 1 else 0),
                   Finite (if yes ''renal'' then 1 else 0),
                   Finite (if yes ''diabetes'' then 1 else 0),
                   num ''temperature'',
                   num ''bmi'',
                   Finite (if yes ''edema'' then 1 else 0),
                   Finite (if yes ''immobility'' then 1 else 0),
                   Finite (if yes ''pneumonia'' then 1 else 0),
                   num ''platelets'',
                   Finite (if yes ''af'' then 1 else 0)]"
      by (rule first)
  next
    assume "\<forall>q\<in>set questions. map_of kvs' q = map_of kvs q"
    then show "input_features E (JObj kvs') questions []
                 = input_features E (JObj kvs) questions []"
      by (rule second)
  qed
qed

text \<open>The payload of scenario A, and the same items in the reverse order.\<close>

theorem feature_vector_order_witness:
  "input_features (stub_env (1 / 5)) (JObj scenario_A) questions []
     = Next [Finite 45, Finite 0, Finite 0, Finite 0, Finite 0, Finite 0, Finite 0, Finite 37,
             Finite 22.5, Finite 0, Finite 0, Finite 0, Finite 250, Finite 0] \<and>
   input_features (stub_env (1 / 5)) (JObj (rev scenario_A)) questions []
     = Next [Finite 45, Finite 0, Finite 0, Finite 0, Finite 0, Finite 0, Finite 0, Finite 37,
             Finite 22.5, Finite 0, Finite 0, Finite 0, Finite 250, Finite 0]"
proof -
  have n: "\<forall>q\<in>set [''age'', ''temperature'', ''bmi'', ''platelets''].
             \<exists>v. map_of scenario_A q = Some v \<and> v \<noteq> JNull \<and>
                 py_float v = Inr (if q = ''age'' then Finite 45
                                   else if q = ''temperature'' then Finite 37
                                   else if q = ''bmi'' then Finite 22.5 else Finite 250)"
    by (simp add: scenario_A_def fl64_45 fl64_250)
  have y: "\<forall>q\<in>set [''trauma'', ''vt_history'', ''cancer'', ''lung'', ''renal'', ''diabetes'',
                       ''edema'', ''immobility'', ''pneumonia'', ''af''].
             map_of scenario_A q = Some (JStr (if False then ''Yes'' else ''No''))"
    by (simp add: scenario_A_def)
  have r: "\<forall>q\<in>set questions. map_of (rev scenario_A) q = map_of scenario_A q"
    by (simp add: questions_def scenario_A_def)
  from feature_vector_order
    [of scenario_A
        "\<lambda>q. if q = ''age'' then Finite 45 else if q = ''temperature'' then Finite 37
              else if q = ''bmi'' then Finite 22.5 else Finite 250"
        "\<lambda>q. False" "stub_env (1 / 5)" "rev scenario_A"] n y r
  show ?thesis
    by (simp del: input_features.simps)
qed

subsection \<open>Exceptions of the artifacts\<close>

text \<open>
  C9, as amended. After a successful validation, an exception raised by
  \<^verbatim>\<open>scaler.transform\<close>, by \<^verbatim>\<open>model.predict\<close>, by \<^verbatim>\<open>model.predict_proba\<close> or by the
  indexing of its result is caught by the handler of line 137: \<^verbatim>\<open>predict\<close> answers with
  status 500, and the error text of the answer is \<^verbatim>\<open>str(e)\<close>, the text of the exception.
\<close>

theorem exception_answer_500_with_text:
  assumes "input_features E data questions [] = Next feats"
  shows "(scaler_transform E [feats] s = (Inl e, s1) \<longrightarrow>
            predict E data s = (([(''error'', str_exn e)], 500), s1)) \<and>
         (scaler_transform E [feats] s = (Inr input_scaled, s1) \<and>
          model_predict E input_scaled s1 = (Inl e, s2) \<longrightarrow>
            predict E data s = (([(''error'', str_exn e)], 500), s2)) \<and>
         (scaler_transform E [feats] s = (Inr input_scaled, s1) \<and>
          model_predict E input_scaled s1 = (Inr prediction, s2) \<and>
          model_predict_proba E input_scaled s2 = (Inl e, s3) \<longrightarrow>
            predict E data s = (([(''error'', str_exn e)], 500), s3)) \<and>
         (scaler_transform E [feats] s = (Inr input_scaled, s1) \<and>
          model_predict E input_scaled s1 = (Inr prediction, s2) \<and>
          model_predict_proba E input_scaled s2 = (Inr probabilities, s3) \<and>
          pe_probability probabilities = Inl e \<longrightarrow>
            predict E data s = (([(''error'', str_exn e)], 500), s3))"
proof -
  have "data \<noteq> JNull"
    using assms by (rule input_features_next_not_null)
  with assms show ?thesis
    by (simp add: predict_def predict_try_def)
qed

text \<open>A classifier with a single class: \<^verbatim>\<open>probabilities[0][1]\<close> raises the IndexError of
  numpy, and its text is the answer.\<close>

theorem exception_answer_500_with_text_witness:
  "predict single_class_env (JObj scenario_A) 0
     = (([(''error'', ''index 1 is out of bounds for axis 0 with size 1'')], 500), 3)"
proof -
  have idx: "pe_probability [[Finite 1]]
               = Inl (IndexError ''index 1 is out of bounds for axis 0 with size 1'')"
    by (simp add: pe_probability_def np_index_def str_nat.simps)
  from exception_answer_500_with_text
    [of single_class_env "JObj scenario_A" _ 0 "IndexError ''index 1 is out of bounds for axis 0 with size 1''"
        1 "[[Finite 45, Finite 0, Finite 0, Finite 0, Finite 0, Finite 0,
             Finite 0, Finite 37, Finite 22.5, Finite 0, Finite 0, Finite 0,
             Finite 250, Finite 0]]"
        2 "[0]" 3 "[[Finite 1]]", OF scenario_A_features]
  show ?thesis
    by (simp add: single_class_env_def spy_env_def idx)
qed

text \<open>The claim as stated, that the answer never carries internal error detail, fails: with
  a scaler fitted on thirteen features the answer is the text of the ValueError that
  \<^verbatim>\<open>scaler.transform\<close> raised.\<close>

theorem exception_text_counterexample:
  "fst (scaler_transform skewed_scaler_env
          [[Finite 45, Finite 0, Finite 0, Finite 0, Finite 0, Finite 0, Finite 0, Finite 37,
            Finite 22.5, Finite 0, Finite 0, Finite 0, Finite 250, Finite 0]] 0)
     = Inl (ValueError
              ''X has 14 features, but StandardScaler is expecting 13 features as input.'') \<and>
   predict skewed_scaler_env (JObj scenario_A) 0
     = (([(''error'',
           ''X has 14 features, but StandardScaler is expecting 13 features as input.'')],
         500), 1)"
  by (simp add: predict_def predict_try_def scenario_A_features skewed_scaler_env_def
        spy_env_def)

end
